theory Spec2Isabelle
  imports Main "HOL-Library.Word"
begin

unbundle bit_operations_syntax

section \<open>The entry point of btcd: \<open>btcd.go\<close>\<close>

text \<open>
  The file holds three functions: \<open>btcdMain\<close>, the start-up and shut-down sequence of
  the node, \<open>foo\<close>, which decodes a hexadecimal literal, prints it and exits, and
  \<open>main\<close>, which calls \<open>foo\<close> and then the usual start-up code. Everything else that
  they call (configuration, logging, the block database, the indexers, the server) lives
  in other packages; each such call is modelled by the event it leaves in a trace and by
  a result that the environment supplies. An external call is taken to return.
\<close>

subsection \<open>Data\<close>

type_synonym byte = "8 word"

text \<open>
  Go's \<open>error\<close> values. \<open>ErrLength\<close> and \<open>InvalidByteError\<close> are those of
  \<open>encoding/hex\<close>; \<open>Failure\<close> stands for any other error, with its message.

  Modelled from the spec: \<open>DependencyViolation\<close> is the error that section 4.6 and
  section 7 of the specification give to dropping the transaction index while the address
  index exists. Nothing in \<open>btcd.go\<close> raises it.
\<close>

datatype error = ErrLength | InvalidByteError char | DependencyViolation | Failure string

text \<open>The fields of \<open>config\<close> that \<open>btcd.go\<close> reads.\<close>

record config =
  DropAddrIndex :: bool
  DropTxIndex :: bool
  Listeners :: "string list"

text \<open>
  Modelled from the spec: the contents of the database are not declared in \<open>btcd.go\<close>.
  Section 3 of the specification: the block database keeps two derived indexes. An index
  that is present holds its records; \<open>None\<close> is an index that has been dropped. A transaction location record
  maps a transaction id to a block hash and an offset, an address activity record maps an
  address to transaction ids.
\<close>

record index_store =
  tx_index :: "(nat \<times> nat \<times> nat) list option"
  addr_index :: "(nat \<times> nat list) list option"

datatype server_state = NoServer | Created | Started | Stopped

text \<open>What a run does that can be seen from outside, in the order in which it happens.\<close>

datatype event =
    Println "byte list" "error option"
  | FprintfStderr string error
  | PrintlnError error
  | OsExit int
  | GOMAXPROCS
  | SetGCPercent int
  | SetLimits
  | WinServiceMain
  | LoadConfig
  | InterruptListener
  | LogInfo string
  | LogError error
  | LogUnableToStart "string list" error
  | LoadBlockDB
  | DbClose
  | IndexersDropAddrIndex
  | IndexersDropTxIndex
  | NewServer
  | ServerStart
  | ServerChanSend server_state
  | InterruptReceive
  | ServerStop
  | ServerWaitForShutdown
  | BackendLogFlush

text \<open>
  The state of the process and of its database: the trace so far, the global \<open>cfg\<close>,
  the indexes on disk, whether the database handle is open, and the server.
\<close>

record world =
  trace :: "event list"
  cfg :: "config option"
  store :: index_store
  db_open :: bool
  server :: server_state

text \<open>
  What the environment answers to the calls that leave \<open>btcd.go\<close>.
  \<open>interrupt e = Some k\<close> says that the shutdown signal fires after \<open>k\<close> of the
  checks of \<open>interruptRequested\<close> have passed without it, \<open>None\<close> that it never
  fires; the channel returned by \<open>interruptListener\<close> is closed once and stays closed.
\<close>

record env =
  goos :: string
  setLimits :: "error option"
  winServiceMain :: "bool \<times> error option"
  loadConfig :: "error + config"
  interrupt :: "nat option"
  loadBlockDB :: "error option"
  dropAddrIndex :: "index_store \<Rightarrow> error option \<times> index_store"
  dropTxIndex :: "index_store \<Rightarrow> error option \<times> index_store"
  newServer :: "error option"

text \<open>
  How a function ends: it returns a value, the process exits with a status
  (\<open>os.Exit\<close>), or it blocks for ever on a channel.
\<close>

datatype 'a outcome = Returned 'a | Exited int | Blocked

definition emit :: "event \<Rightarrow> world \<Rightarrow> world" where
  "emit ev w = w\<lparr>trace := trace w @ [ev]\<rparr>"

subsection \<open>\<open>encoding/hex\<close>\<close>

text \<open>
  \<open>hex.DecodeString\<close> of Go's standard library, which \<open>foo\<close> calls: a string of
  odd length is refused with \<open>ErrLength\<close>, a character that is not a hexadecimal
  digit with \<open>InvalidByteError\<close>, and otherwise every two digits \<open>a\<close>, \<open>b\<close>
  give the byte \<open>a << 4 | b\<close>.
\<close>

definition fromHexChar :: "char \<Rightarrow> byte option" where
  "fromHexChar c =
     (let n = (of_char c :: nat) in
      if 48 \<le> n \<and> n \<le> 57 then Some (of_nat (n - 48))
      else if 97 \<le> n \<and> n \<le> 102 then Some (of_nat (n - 97 + 10))
      else if 65 \<le> n \<and> n \<le> 70 then Some (of_nat (n - 65 + 10))
      else None)"

fun decode_pairs :: "string \<Rightarrow> error + byte list" where
  "decode_pairs (p # q # rest) =
     (case fromHexChar p of
        None \<Rightarrow> Inl (InvalidByteError p)
      | Some a \<Rightarrow>
         (case fromHexChar q of
            None \<Rightarrow> Inl (InvalidByteError q)
          | Some b \<Rightarrow>
             (case decode_pairs rest of
                Inl err \<Rightarrow> Inl err
              | Inr bs \<Rightarrow> Inr ((push_bit 4 a OR b) # bs))))"
| "decode_pairs _ = Inr []"

definition DecodeString :: "string \<Rightarrow> byte list \<times> error option" where
  "DecodeString s =
     (if length s mod 2 = 1 then ([], Some ErrLength)
      else case decode_pairs s of
             Inl err \<Rightarrow> ([], Some err)
           | Inr bs \<Rightarrow> (bs, None))"

subsection \<open>The interrupt channel\<close>

text \<open>
  \<open>interruptRequested\<close> is the check that does not block: at the check numbered
  \<open>k\<close> (from 0) it answers whether the signal has fired yet. \<open>interruptReceive\<close> is
  the receive \<open><-interruptedChan\<close>, which returns when the signal fires, whenever
  that is, and blocks for ever when it never does.
\<close>

definition interruptRequested :: "env \<Rightarrow> nat \<Rightarrow> bool" where
  "interruptRequested e k = (case interrupt e of None \<Rightarrow> False | Some t \<Rightarrow> t \<le> k)"

definition interruptReceive :: "env \<Rightarrow> bool" where
  "interruptReceive e = (interrupt e \<noteq> None)"

subsection \<open>Deferred calls\<close>

text \<open>
  The four \<open>defer\<close> statements of \<open>btcdMain\<close>. A deferred call is pushed on a stack
  when its \<open>defer\<close> statement is executed and the stack is run from the top when the
  function returns.
\<close>

datatype deferred = DeferBackendLogFlush | DeferShutdownComplete | DeferDbClose | DeferServerStop

fun run_deferred :: "deferred \<Rightarrow> world \<Rightarrow> world" where
  "run_deferred DeferBackendLogFlush w = emit BackendLogFlush w"
| "run_deferred DeferShutdownComplete w = emit (LogInfo ''Shutdown complete'') w"
| "run_deferred DeferDbClose w =
     (let w1 = emit (LogInfo ''Gracefully shutting down the database...'') w
      in (emit DbClose w1)\<lparr>db_open := False\<rparr>)"
| "run_deferred DeferServerStop w =
     (let w1 = emit (LogInfo ''Gracefully shutting down the server...'') w;
          w2 = (emit ServerStop w1)\<lparr>server := Stopped\<rparr>;
          w3 = emit ServerWaitForShutdown w2
      in emit (LogInfo ''Server shutdown complete'') w3)"

fun run_defers :: "deferred list \<Rightarrow> world \<Rightarrow> world" where
  "run_defers [] w = w"
| "run_defers (d # ds) w = run_defers ds (run_deferred d w)"

subsection \<open>\<open>btcdMain\<close>\<close>

text \<open>
  The send \<open>serverChan <- server\<close>. The parameter is \<open>None\<close> for a nil channel, and
  \<open>Some r\<close> for a channel on which the send completes (\<open>r\<close>) or finds no receiver and
  blocks for ever. The event records the state of the server that is sent.
\<close>

definition sendServer :: "bool option \<Rightarrow> world \<Rightarrow> world option" where
  "sendServer serverChan w =
     (case serverChan of
        None \<Rightarrow> Some w
      | Some received \<Rightarrow> if received then Some (emit (ServerChanSend (server w)) w) else None)"

text \<open>
  The body of \<open>btcdMain\<close> up to its \<open>return\<close>: the outcome, the stack of deferred calls
  at that point (the last deferred first) and the world.
\<close>

definition btcdMain_body ::
  "env \<Rightarrow> bool option \<Rightarrow> world \<Rightarrow> error option outcome \<times> deferred list \<times> world" where
  "btcdMain_body e serverChan w0 =
     (let w1 = emit LoadConfig w0 in
      case loadConfig e of
        Inl err \<Rightarrow> (Returned (Some err), [], w1)
      | Inr tcfg \<Rightarrow>
         (let w2 = w1\<lparr>cfg := Some tcfg\<rparr>;
              ds1 = [DeferBackendLogFlush];
              w3 = emit InterruptListener w2;
              ds2 = DeferShutdownComplete # ds1;
              w4 = emit (LogInfo ''Version %s'') w3
          in if interruptRequested e 0 then (Returned None, ds2, w4)
             else
              (let w5 = emit LoadBlockDB w4 in
               case loadBlockDB e of
                 Some err \<Rightarrow> (Returned (Some err), ds2, emit (LogError err) w5)
               | None \<Rightarrow>
                  (let w6 = w5\<lparr>db_open := True\<rparr>;
                       ds3 = DeferDbClose # ds2
                   in if interruptRequested e 1 then (Returned None, ds3, w6)
                      else if DropAddrIndex tcfg then
                        (let (r, ix) = dropAddrIndex e (store w6);
                             w7 = (emit IndexersDropAddrIndex w6)\<lparr>store := ix\<rparr>
                         in case r of
                              Some err \<Rightarrow> (Returned (Some err), ds3, emit (LogError err) w7)
                            | None \<Rightarrow> (Returned None, ds3, w7))
                      else if DropTxIndex tcfg then
                        (let (r, ix) = dropTxIndex e (store w6);
                             w7 = (emit IndexersDropTxIndex w6)\<lparr>store := ix\<rparr>
                         in case r of
                              Some err \<Rightarrow> (Returned (Some err), ds3, emit (LogError err) w7)
                            | None \<Rightarrow> (Returned None, ds3, w7))
                      else
                        (let w7 = emit NewServer w6 in
                         case newServer e of
                           Some err \<Rightarrow>
                             (Returned (Some err), ds3,
                              emit (LogUnableToStart (Listeners tcfg) err) w7)
                         | None \<Rightarrow>
                            (let w8 = w7\<lparr>server := Created\<rparr>;
                                 ds4 = DeferServerStop # ds3;
                                 w9 = (emit ServerStart w8)\<lparr>server := Started\<rparr>
                             in case sendServer serverChan w9 of
                                  None \<Rightarrow> (Blocked, ds4, w9)
                                | Some w10 \<Rightarrow>
                                   if interruptReceive e
                                   then (Returned None, ds4, emit InterruptReceive w10)
                                   else (Blocked, ds4, w10)))))))"

text \<open>
  \<open>btcdMain\<close>: the body, and then the deferred calls when it returns. A run that blocks
  never returns, so its deferred calls are not run.
\<close>

definition btcdMain :: "env \<Rightarrow> bool option \<Rightarrow> world \<Rightarrow> error option outcome \<times> world" where
  "btcdMain e serverChan w =
     (case btcdMain_body e serverChan w of
        (Returned r, ds, w') \<Rightarrow> (Returned r, run_defers ds w')
      | (Exited n, ds, w') \<Rightarrow> (Exited n, w')
      | (Blocked, ds, w') \<Rightarrow> (Blocked, w'))"

subsection \<open>\<open>foo\<close> and \<open>main\<close>\<close>

definition foo :: "world \<Rightarrow> unit outcome \<times> world" where
  "foo w =
     (let h = ''76a914da90c671eb03bfddf1d62dd1bdf520f060cf41c088ac'';
          (data, err) = DecodeString h;
          w1 = emit (Println data err) w
      in (Exited 1, emit (OsExit 1) w1))"

text \<open>
  The call of \<open>winServiceMain\<close> and what \<open>main\<close> does with its answer, on Windows only.
\<close>

definition serviceDispatch :: "env \<Rightarrow> world \<Rightarrow> unit outcome \<times> world" where
  "serviceDispatch e w =
     (if goos e = ''windows'' then
        (let w1 = emit WinServiceMain w;
             (isService, err) = winServiceMain e
         in case err of
              Some er \<Rightarrow> (Exited 1, emit (OsExit 1) (emit (PrintlnError er) w1))
            | None \<Rightarrow> if isService then (Exited 0, emit (OsExit 0) w1) else (Returned (), w1))
      else (Returned (), w))"

text \<open>The statements of \<open>main\<close> that follow the call of \<open>foo\<close>.\<close>

definition main_after_foo :: "env \<Rightarrow> world \<Rightarrow> unit outcome \<times> world" where
  "main_after_foo e w0 =
     (let w1 = emit GOMAXPROCS w0;
          w2 = emit (SetGCPercent 10) w1;
          w3 = emit SetLimits w2
      in case setLimits e of
           Some err \<Rightarrow>
             (Exited 1, emit (OsExit 1) (emit (FprintfStderr ''failed to set limits: %v'' err) w3))
         | None \<Rightarrow>
            (case serviceDispatch e w3 of
               (Exited n, w4) \<Rightarrow> (Exited n, w4)
             | (Blocked, w4) \<Rightarrow> (Blocked, w4)
             | (Returned u, w4) \<Rightarrow>
                (case btcdMain e None w4 of
                   (Returned (Some err), w5) \<Rightarrow> (Exited 1, emit (OsExit 1) w5)
                 | (Returned None, w5) \<Rightarrow> (Returned (), w5)
                 | (Exited n, w5) \<Rightarrow> (Exited n, w5)
                 | (Blocked, w5) \<Rightarrow> (Blocked, w5))))"

definition main :: "env \<Rightarrow> world \<Rightarrow> unit outcome \<times> world" where
  "main e w =
     (case foo w of
        (Returned u, w1) \<Rightarrow> main_after_foo e w1
      | (Exited n, w1) \<Rightarrow> (Exited n, w1)
      | (Blocked, w1) \<Rightarrow> (Blocked, w1))"

text \<open>
  The exit status of the process: the argument of \<open>os.Exit\<close>, or 0 when \<open>main\<close>
  returns; none while it blocks.
\<close>

fun exit_status :: "unit outcome \<Rightarrow> int option" where
  "exit_status (Returned u) = Some 0"
| "exit_status (Exited n) = Some n"
| "exit_status Blocked = None"

fun returned :: "'a outcome \<Rightarrow> bool" where
  "returned (Returned x) = True"
| "returned (Exited n) = False"
| "returned Blocked = False"

text \<open>The events that a run adds to the trace it started with.\<close>

definition new_events :: "world \<Rightarrow> world \<Rightarrow> event list" where
  "new_events w w' = drop (length (trace w)) (trace w')"

subsection \<open>The package \<open>indexers\<close>\<close>

text \<open>
  The functions \<open>DropAddrIndex\<close> and \<open>DropTxIndex\<close> of the package
  \<open>blockchain/indexers\<close> are called by \<open>btcdMain\<close> but defined outside \<open>btcd.go\<close>.
  What \<open>btcd.go\<close> says of them is the note above the two calls: the order is important
  because dropping the tx index also drops the address index, since it relies on it. They
  are modelled from that note: \<open>DropAddrIndex\<close> removes the address index, and
  \<open>DropTxIndex\<close> removes the address index and then the transaction index; neither
  refuses.
\<close>

definition indexers_DropAddrIndex :: "index_store \<Rightarrow> error option \<times> index_store" where
  "indexers_DropAddrIndex s = (None, s\<lparr>addr_index := None\<rparr>)"

definition indexers_DropTxIndex :: "index_store \<Rightarrow> error option \<times> index_store" where
  "indexers_DropTxIndex s =
     (let (err, s1) = indexers_DropAddrIndex s
      in case err of
           Some er \<Rightarrow> (Some er, s1)
         | None \<Rightarrow> (None, s1\<lparr>tx_index := None\<rparr>))"

subsection \<open>Order of events\<close>

text \<open>
  \<open>after_first a evs\<close> is what follows the first \<open>a\<close> in \<open>evs\<close>, and
  \<open>occurs_before a b evs\<close> says that \<open>a\<close> occurs in \<open>evs\<close> and \<open>b\<close> occurs
  after its first occurrence.
\<close>

definition after_first :: "event \<Rightarrow> event list \<Rightarrow> event list" where
  "after_first a evs = tl (dropWhile (\<lambda>x. x \<noteq> a) evs)"

definition occurs_before :: "event \<Rightarrow> event \<Rightarrow> event list \<Rightarrow> bool" where
  "occurs_before a b evs = (b \<in> set (after_first a evs))"

subsection \<open>Example runs\<close>

text \<open>
  A database with both indexes present, and environments in which every external call
  succeeds: the indexers as above, the given operating system, configuration and shutdown
  signal, and a service manager that reports a service when it is asked.
\<close>

definition w_init :: world where
  "w_init =
     \<lparr>trace = [], cfg = None,
      store = \<lparr>tx_index = Some [(1, 2, 3)], addr_index = Some [(7, [1])]\<rparr>,
      db_open = False, server = NoServer\<rparr>"

definition cfg_with :: "bool \<Rightarrow> bool \<Rightarrow> config" where
  "cfg_with dropAddr dropTx =
     \<lparr>DropAddrIndex = dropAddr, DropTxIndex = dropTx, Listeners = [''127.0.0.1:8333'']\<rparr>"

definition env_with :: "string \<Rightarrow> config \<Rightarrow> nat option \<Rightarrow> env" where
  "env_with os c sig =
     \<lparr>goos = os, setLimits = None, winServiceMain = (True, None), loadConfig = Inr c,
      interrupt = sig, loadBlockDB = None, dropAddrIndex = indexers_DropAddrIndex,
      dropTxIndex = indexers_DropTxIndex, newServer = None\<rparr>"

section \<open>Properties\<close>

subsection \<open>Auxiliary facts\<close>

lemma trace_emit [simp]: "trace (emit ev w) = trace w @ [ev]"
  by (simp add: emit_def)

lemma emit_fields [simp]:
  "cfg (emit ev w) = cfg w" "store (emit ev w) = store w"
  "db_open (emit ev w) = db_open w" "server (emit ev w) = server w"
  by (simp_all add: emit_def)

lemma interruptRequested_mono: "interruptRequested e 0 \<Longrightarrow> interruptRequested e 1"
  by (simp add: interruptRequested_def split: option.splits)

lemma not_requested_first: "\<not> interruptRequested e 1 \<Longrightarrow> \<not> interruptRequested e 0"
  using interruptRequested_mono by blast

lemma DecodeString_literal:
  "DecodeString ''76a914da90c671eb03bfddf1d62dd1bdf520f060cf41c088ac'' =
     ([118, 169, 20, 218, 144, 198, 113, 235, 3, 191, 221, 241, 214, 45, 209, 189, 245,
       32, 240, 96, 207, 65, 192, 136, 172], None)"
  by code_simp

lemma foo_eq:
  "foo w =
     (Exited 1,
      emit (OsExit 1)
        (emit (Println [118, 169, 20, 218, 144, 198, 113, 235, 3, 191, 221, 241, 214, 45,
                 209, 189, 245, 32, 240, 96, 207, 65, 192, 136, 172] None) w))"
  by (simp add: foo_def DecodeString_literal)

lemmas run_defs = btcdMain_def btcdMain_body_def sendServer_def new_events_def Let_def

lemmas order_defs = occurs_before_def after_first_def

lemmas example_defs = w_init_def cfg_with_def env_with_def

lemmas eval_defs = run_defs example_defs order_defs interruptRequested_def
  interruptReceive_def indexers_DropAddrIndex_def indexers_DropTxIndex_def

subsection \<open>The paths through \<open>btcdMain\<close>\<close>

text \<open>
  \<open>btcdMain\<close> has ten ways to end. For each of them: the outcome, the trace, and the
  state of the indexes, of the database handle and of the server at the end.
\<close>

lemma path_config_error:
  assumes "loadConfig e = Inl err"
  shows "fst (btcdMain e serverChan w) = Returned (Some err)"
    and "trace (snd (btcdMain e serverChan w)) =
           trace w @
           [LoadConfig]"
    and "store (snd (btcdMain e serverChan w)) = store w"
    and "db_open (snd (btcdMain e serverChan w)) = db_open w"
    and "server (snd (btcdMain e serverChan w)) = server w"
  using assms 
  by (simp_all add: run_defs)

lemma path_interrupted_first:
  assumes "loadConfig e = Inr c"
    and "interruptRequested e 0"
  shows "fst (btcdMain e serverChan w) = Returned None"
    and "trace (snd (btcdMain e serverChan w)) =
           trace w @
           [LoadConfig, InterruptListener, LogInfo ''Version %s'',
            LogInfo ''Shutdown complete'', BackendLogFlush]"
    and "store (snd (btcdMain e serverChan w)) = store w"
    and "db_open (snd (btcdMain e serverChan w)) = db_open w"
    and "server (snd (btcdMain e serverChan w)) = server w"
  using assms 
  by (simp_all add: run_defs)

lemma path_db_error:
  assumes "loadConfig e = Inr c"
    and "\<not> interruptRequested e 0"
    and "loadBlockDB e = Some err"
  shows "fst (btcdMain e serverChan w) = Returned (Some err)"
    and "trace (snd (btcdMain e serverChan w)) =
           trace w @
           [LoadConfig, InterruptListener, LogInfo ''Version %s'', LoadBlockDB, LogError err,
            LogInfo ''Shutdown complete'', BackendLogFlush]"
    and "store (snd (btcdMain e serverChan w)) = store w"
    and "db_open (snd (btcdMain e serverChan w)) = db_open w"
    and "server (snd (btcdMain e serverChan w)) = server w"
  using assms 
  by (simp_all add: run_defs)

lemma path_interrupted_second:
  assumes "loadConfig e = Inr c"
    and "\<not> interruptRequested e 0"
    and "loadBlockDB e = None"
    and "interruptRequested e 1"
  shows "fst (btcdMain e serverChan w) = Returned None"
    and "trace (snd (btcdMain e serverChan w)) =
           trace w @
           [LoadConfig, InterruptListener, LogInfo ''Version %s'', LoadBlockDB,
            LogInfo ''Gracefully shutting down the database...'', DbClose,
            LogInfo ''Shutdown complete'', BackendLogFlush]"
    and "store (snd (btcdMain e serverChan w)) = store w"
    and "db_open (snd (btcdMain e serverChan w)) = False"
    and "server (snd (btcdMain e serverChan w)) = server w"
  using assms 
  by (simp_all add: run_defs)

lemma path_drop_addr:
  assumes "loadConfig e = Inr c"
    and "\<not> interruptRequested e 1"
    and "loadBlockDB e = None"
    and "DropAddrIndex c"
  shows "fst (btcdMain e serverChan w) = Returned (fst (dropAddrIndex e (store w)))"
    and "trace (snd (btcdMain e serverChan w)) =
           trace w @
           ([LoadConfig, InterruptListener, LogInfo ''Version %s'', LoadBlockDB, IndexersDropAddrIndex] @
            (case fst (dropAddrIndex e (store w)) of None \<Rightarrow> [] | Some err \<Rightarrow> [LogError err]) @
            [LogInfo ''Gracefully shutting down the database...'', DbClose,
            LogInfo ''Shutdown complete'', BackendLogFlush])"
    and "store (snd (btcdMain e serverChan w)) = snd (dropAddrIndex e (store w))"
    and "db_open (snd (btcdMain e serverChan w)) = False"
    and "server (snd (btcdMain e serverChan w)) = server w"
  using assms not_requested_first [OF assms(2)]
  by (simp_all add: run_defs split: prod.splits option.splits)

lemma path_drop_tx:
  assumes "loadConfig e = Inr c"
    and "\<not> interruptRequested e 1"
    and "loadBlockDB e = None"
    and "\<not> DropAddrIndex c"
    and "DropTxIndex c"
  shows "fst (btcdMain e serverChan w) = Returned (fst (dropTxIndex e (store w)))"
    and "trace (snd (btcdMain e serverChan w)) =
           trace w @
           ([LoadConfig, InterruptListener, LogInfo ''Version %s'', LoadBlockDB, IndexersDropTxIndex] @
            (case fst (dropTxIndex e (store w)) of None \<Rightarrow> [] | Some err \<Rightarrow> [LogError err]) @
            [LogInfo ''Gracefully shutting down the database...'', DbClose,
            LogInfo ''Shutdown complete'', BackendLogFlush])"
    and "store (snd (btcdMain e serverChan w)) = snd (dropTxIndex e (store w))"
    and "db_open (snd (btcdMain e serverChan w)) = False"
    and "server (snd (btcdMain e serverChan w)) = server w"
  using assms not_requested_first [OF assms(2)]
  by (simp_all add: run_defs split: prod.splits option.splits)

lemma path_server_error:
  assumes "loadConfig e = Inr c"
    and "\<not> interruptRequested e 1"
    and "loadBlockDB e = None"
    and "\<not> DropAddrIndex c"
    and "\<not> DropTxIndex c"
    and "newServer e = Some err"
  shows "fst (btcdMain e serverChan w) = Returned (Some err)"
    and "trace (snd (btcdMain e serverChan w)) =
           trace w @
           [LoadConfig, InterruptListener, LogInfo ''Version %s'', LoadBlockDB, NewServer,
            LogUnableToStart (Listeners c) err,
            LogInfo ''Gracefully shutting down the database...'', DbClose,
            LogInfo ''Shutdown complete'', BackendLogFlush]"
    and "store (snd (btcdMain e serverChan w)) = store w"
    and "db_open (snd (btcdMain e serverChan w)) = False"
    and "server (snd (btcdMain e serverChan w)) = server w"
  using assms not_requested_first [OF assms(2)]
  by (simp_all add: run_defs)

lemma path_send_blocks:
  assumes "loadConfig e = Inr c"
    and "\<not> interruptRequested e 1"
    and "loadBlockDB e = None"
    and "\<not> DropAddrIndex c"
    and "\<not> DropTxIndex c"
    and "newServer e = None"
    and "serverChan = Some False"
  shows "fst (btcdMain e serverChan w) = Blocked"
    and "trace (snd (btcdMain e serverChan w)) =
           trace w @
           [LoadConfig, InterruptListener, LogInfo ''Version %s'', LoadBlockDB, NewServer, ServerStart]"
    and "store (snd (btcdMain e serverChan w)) = store w"
    and "db_open (snd (btcdMain e serverChan w)) = True"
    and "server (snd (btcdMain e serverChan w)) = Started"
  using assms not_requested_first [OF assms(2)]
  by (simp_all add: run_defs)

lemma path_never_interrupted:
  assumes "loadConfig e = Inr c"
    and "\<not> interruptRequested e 1"
    and "loadBlockDB e = None"
    and "\<not> DropAddrIndex c"
    and "\<not> DropTxIndex c"
    and "newServer e = None"
    and "serverChan \<noteq> Some False"
    and "\<not> interruptReceive e"
  shows "fst (btcdMain e serverChan w) = Blocked"
    and "trace (snd (btcdMain e serverChan w)) =
           trace w @
           ([LoadConfig, InterruptListener, LogInfo ''Version %s'', LoadBlockDB, NewServer, ServerStart] @
            (if serverChan = None then [] else [ServerChanSend Started]))"
    and "store (snd (btcdMain e serverChan w)) = store w"
    and "db_open (snd (btcdMain e serverChan w)) = True"
    and "server (snd (btcdMain e serverChan w)) = Started"
  using assms not_requested_first [OF assms(2)]
  by (auto simp: run_defs split: option.splits)

lemma path_served:
  assumes "loadConfig e = Inr c"
    and "\<not> interruptRequested e 1"
    and "loadBlockDB e = None"
    and "\<not> DropAddrIndex c"
    and "\<not> DropTxIndex c"
    and "newServer e = None"
    and "serverChan \<noteq> Some False"
    and "interruptReceive e"
  shows "fst (btcdMain e serverChan w) = Returned None"
    and "trace (snd (btcdMain e serverChan w)) =
           trace w @
           ([LoadConfig, InterruptListener, LogInfo ''Version %s'', LoadBlockDB, NewServer, ServerStart] @
            (if serverChan = None then [] else [ServerChanSend Started]) @
            [InterruptReceive, LogInfo ''Gracefully shutting down the server...'', ServerStop,
             ServerWaitForShutdown, LogInfo ''Server shutdown complete'',
             LogInfo ''Gracefully shutting down the database...'', DbClose,
             LogInfo ''Shutdown complete'', BackendLogFlush])"
    and "store (snd (btcdMain e serverChan w)) = store w"
    and "db_open (snd (btcdMain e serverChan w)) = False"
    and "server (snd (btcdMain e serverChan w)) = Stopped"
  using assms not_requested_first [OF assms(2)]
  by (auto simp: run_defs split: option.splits)

text \<open>The ten paths are all there are.\<close>

lemma btcdMain_paths [case_names config_error interrupted_first db_error interrupted_second
    drop_addr drop_tx server_error send_blocks never_interrupted served]:
  obtains err where "loadConfig e = Inl err"
  | c where "loadConfig e = Inr c" "interruptRequested e 0"
  | c err where "loadConfig e = Inr c" "\<not> interruptRequested e 0" "loadBlockDB e = Some err"
  | c where "loadConfig e = Inr c" "\<not> interruptRequested e 0" "loadBlockDB e = None"
      "interruptRequested e 1"
  | c where "loadConfig e = Inr c" "\<not> interruptRequested e 1" "loadBlockDB e = None"
      "DropAddrIndex c"
  | c where "loadConfig e = Inr c" "\<not> interruptRequested e 1" "loadBlockDB e = None"
      "\<not> DropAddrIndex c" "DropTxIndex c"
  | c err where "loadConfig e = Inr c" "\<not> interruptRequested e 1" "loadBlockDB e = None"
      "\<not> DropAddrIndex c" "\<not> DropTxIndex c" "newServer e = Some err"
  | c where "loadConfig e = Inr c" "\<not> interruptRequested e 1" "loadBlockDB e = None"
      "\<not> DropAddrIndex c" "\<not> DropTxIndex c" "newServer e = None" "serverChan = Some False"
  | c where "loadConfig e = Inr c" "\<not> interruptRequested e 1" "loadBlockDB e = None"
      "\<not> DropAddrIndex c" "\<not> DropTxIndex c" "newServer e = None" "serverChan \<noteq> Some False"
      "\<not> interruptReceive e"
  | c where "loadConfig e = Inr c" "\<not> interruptRequested e 1" "loadBlockDB e = None"
      "\<not> DropAddrIndex c" "\<not> DropTxIndex c" "newServer e = None" "serverChan \<noteq> Some False"
      "interruptReceive e"
  using not_requested_first [of e]
  by (cases "loadConfig e"; cases "loadBlockDB e"; cases "newServer e") blast+

lemma trace_btcdMain:
  "trace (snd (btcdMain e serverChan w)) = trace w @ new_events w (snd (btcdMain e serverChan w))"
proof (cases rule: btcdMain_paths [where e = e and serverChan = serverChan])
  case config_error
  then show ?thesis by (simp add: new_events_def path_config_error)
next
  case interrupted_first
  then show ?thesis by (simp add: new_events_def path_interrupted_first)
next
  case db_error
  then show ?thesis by (simp add: new_events_def path_db_error)
next
  case interrupted_second
  then show ?thesis by (simp add: new_events_def path_interrupted_second)
next
  case drop_addr
  then show ?thesis by (simp add: new_events_def path_drop_addr)
next
  case drop_tx
  then show ?thesis by (simp add: new_events_def path_drop_tx)
next
  case server_error
  then show ?thesis by (simp add: new_events_def path_server_error)
next
  case send_blocks
  then show ?thesis by (simp add: new_events_def path_send_blocks)
next
  case never_interrupted
  then show ?thesis by (simp add: new_events_def path_never_interrupted)
next
  case served
  then show ?thesis by (simp add: new_events_def path_served)
qed

text \<open>A run in which the database was asked for and could not be loaded.\<close>

lemma db_failure_returned:
  assumes "LoadBlockDB \<in> set (new_events w (snd (btcdMain e serverChan w)))"
    and "loadBlockDB e = Some err"
  shows "fst (btcdMain e serverChan w) = Returned (Some err)"
    and "new_events w (snd (btcdMain e serverChan w)) =
           [LoadConfig, InterruptListener, LogInfo ''Version %s'', LoadBlockDB, LogError err,
            LogInfo ''Shutdown complete'', BackendLogFlush]"
    and "db_open (snd (btcdMain e serverChan w)) = db_open w"
    and "server (snd (btcdMain e serverChan w)) = server w"
proof -
  have "\<exists>c. loadConfig e = Inr c \<and> \<not> interruptRequested e 0"
  proof (cases rule: btcdMain_paths [where e = e and serverChan = serverChan])
    case config_error
    with assms(1) show ?thesis by (simp add: new_events_def path_config_error)
  next
    case interrupted_first
    with assms(1) show ?thesis by (simp add: new_events_def path_interrupted_first)
  next
    case db_error
    then show ?thesis by simp
  qed (use assms(2) in simp_all)
  then obtain c where c: "loadConfig e = Inr c" "\<not> interruptRequested e 0"
    by blast
  show "fst (btcdMain e serverChan w) = Returned (Some err)"
    "new_events w (snd (btcdMain e serverChan w)) =
           [LoadConfig, InterruptListener, LogInfo ''Version %s'', LoadBlockDB, LogError err,
            LogInfo ''Shutdown complete'', BackendLogFlush]"
    "db_open (snd (btcdMain e serverChan w)) = db_open w"
    "server (snd (btcdMain e serverChan w)) = server w"
    using path_db_error [OF c assms(2)] by (simp_all add: new_events_def)
qed

text \<open>\<open>btcdMain\<close> itself never calls \<open>winServiceMain\<close>.\<close>

lemma btcdMain_no_service_call:
  "WinServiceMain \<notin> set (new_events w (snd (btcdMain e serverChan w)))"
proof (cases rule: btcdMain_paths [where e = e and serverChan = serverChan])
  case config_error
  then show ?thesis by (simp add: new_events_def path_config_error)
next
  case interrupted_first
  then show ?thesis by (simp add: new_events_def path_interrupted_first)
next
  case db_error
  then show ?thesis by (simp add: new_events_def path_db_error)
next
  case interrupted_second
  then show ?thesis by (simp add: new_events_def path_interrupted_second)
next
  case drop_addr
  then show ?thesis by (simp add: new_events_def path_drop_addr split: option.splits)
next
  case drop_tx
  then show ?thesis by (simp add: new_events_def path_drop_tx split: option.splits)
next
  case server_error
  then show ?thesis by (simp add: new_events_def path_server_error)
next
  case send_blocks
  then show ?thesis by (simp add: new_events_def path_send_blocks)
next
  case never_interrupted
  then show ?thesis by (simp add: new_events_def path_never_interrupted)
next
  case served
  then show ?thesis by (simp add: new_events_def path_served)
qed

subsection \<open>The paths through \<open>main\<close> after \<open>foo\<close>\<close>

lemma serviceDispatch_cases:
  "serviceDispatch e w =
     (if goos e \<noteq> ''windows'' then (Returned (), w)
      else case snd (winServiceMain e) of
             Some er \<Rightarrow> (Exited 1, emit (OsExit 1) (emit (PrintlnError er) (emit WinServiceMain w)))
           | None \<Rightarrow>
               if fst (winServiceMain e) then (Exited 0, emit (OsExit 0) (emit WinServiceMain w))
               else (Returned (), emit WinServiceMain w))"
  by (simp add: serviceDispatch_def Let_def split: prod.splits option.splits)

lemma main_after_foo_limits_error:
  assumes "setLimits e = Some err"
  shows "fst (main_after_foo e w) = Exited 1"
    and "trace (snd (main_after_foo e w)) =
           trace w @ [GOMAXPROCS, SetGCPercent 10, SetLimits,
                      FprintfStderr ''failed to set limits: %v'' err, OsExit 1]"
  using assms by (simp_all add: main_after_foo_def)

lemma main_after_foo_service_error:
  assumes "setLimits e = None" and "goos e = ''windows''" and "snd (winServiceMain e) = Some err"
  shows "fst (main_after_foo e w) = Exited 1"
    and "trace (snd (main_after_foo e w)) =
           trace w @ [GOMAXPROCS, SetGCPercent 10, SetLimits, WinServiceMain,
                      PrintlnError err, OsExit 1]"
  using assms by (simp_all add: main_after_foo_def serviceDispatch_cases)

lemma main_after_foo_service:
  assumes "setLimits e = None" and "goos e = ''windows''" and "winServiceMain e = (True, None)"
  shows "fst (main_after_foo e w) = Exited 0"
    and "trace (snd (main_after_foo e w)) =
           trace w @ [GOMAXPROCS, SetGCPercent 10, SetLimits, WinServiceMain, OsExit 0]"
  using assms by (simp_all add: main_after_foo_def serviceDispatch_cases)

text \<open>
  Otherwise \<open>btcdMain\<close> is called with a nil channel, and an error that it returns
  becomes exit status 1.
\<close>

lemma main_after_foo_btcdMain:
  assumes "setLimits e = None" and "goos e \<noteq> ''windows'' \<or> winServiceMain e = (False, None)"
    and "w4 = (if goos e = ''windows'' then emit WinServiceMain else id)
                (emit SetLimits (emit (SetGCPercent 10) (emit GOMAXPROCS w)))"
  shows "fst (main_after_foo e w) =
           (case fst (btcdMain e None w4) of
              Returned None \<Rightarrow> Returned ()
            | Returned (Some err) \<Rightarrow> Exited 1
            | Exited n \<Rightarrow> Exited n
            | Blocked \<Rightarrow> Blocked)"
    and "trace (snd (main_after_foo e w)) =
           trace w4 @ new_events w4 (snd (btcdMain e None w4)) @
           (case fst (btcdMain e None w4) of
              Returned None \<Rightarrow> []
            | Returned (Some err) \<Rightarrow> [OsExit 1]
            | Exited n \<Rightarrow> []
            | Blocked \<Rightarrow> [])"
proof -
  have "trace (snd (main_after_foo e w)) =
           trace (snd (btcdMain e None w4)) @
           (case fst (btcdMain e None w4) of
              Returned None \<Rightarrow> []
            | Returned (Some err) \<Rightarrow> [OsExit 1]
            | Exited n \<Rightarrow> []
            | Blocked \<Rightarrow> [])"
    using assms
    by (auto simp: main_after_foo_def serviceDispatch_cases
        split: prod.splits outcome.splits option.splits)
  then show "trace (snd (main_after_foo e w)) =
           trace w4 @ new_events w4 (snd (btcdMain e None w4)) @
           (case fst (btcdMain e None w4) of
              Returned None \<Rightarrow> []
            | Returned (Some err) \<Rightarrow> [OsExit 1]
            | Exited n \<Rightarrow> []
            | Blocked \<Rightarrow> [])"
    using trace_btcdMain [of e None w4] by simp
  show "fst (main_after_foo e w) =
           (case fst (btcdMain e None w4) of
              Returned None \<Rightarrow> Returned ()
            | Returned (Some err) \<Rightarrow> Exited 1
            | Exited n \<Rightarrow> Exited n
            | Blocked \<Rightarrow> Blocked)"
    using assms
    by (auto simp: main_after_foo_def serviceDispatch_cases
        split: prod.splits outcome.splits option.splits)
qed

lemma main_after_foo_paths [case_names limits_error service_error service standalone]:
  obtains err where "setLimits e = Some err"
  | err where "setLimits e = None" "goos e = ''windows''" "snd (winServiceMain e) = Some err"
  | "setLimits e = None" "goos e = ''windows''" "winServiceMain e = (True, None)"
  | "setLimits e = None" "goos e \<noteq> ''windows'' \<or> winServiceMain e = (False, None)"
  by (cases "setLimits e"; cases "winServiceMain e"; cases "snd (winServiceMain e)";
      cases "fst (winServiceMain e)") auto

section \<open>The claims\<close>

subsection \<open>\<open>main\<close> never gets past \<open>foo\<close>\<close>

text \<open>
  C1. Whatever the environment, \<open>main\<close> calls \<open>foo\<close> first: \<open>foo\<close> decodes its
  hexadecimal literal (25 bytes, no error), prints the result and calls \<open>os.Exit(1)\<close>.
  The process therefore ends with exit status 1 and with these two events only: the
  configuration is not loaded, the database is not opened, no index is dropped, no server
  is created or started, and the state of the database is left as it was.
\<close>

theorem main_exits_with_status_1:
  "fst (main e w) = Exited 1 \<and>
   exit_status (fst (main e w)) = Some 1 \<and>
   new_events w (snd (main e w)) =
     [Println [118, 169, 20, 218, 144, 198, 113, 235, 3, 191, 221, 241, 214, 45, 209,
        189, 245, 32, 240, 96, 207, 65, 192, 136, 172] None, OsExit 1] \<and>
   LoadConfig \<notin> set (new_events w (snd (main e w))) \<and>
   LoadBlockDB \<notin> set (new_events w (snd (main e w))) \<and>
   IndexersDropAddrIndex \<notin> set (new_events w (snd (main e w))) \<and>
   IndexersDropTxIndex \<notin> set (new_events w (snd (main e w))) \<and>
   NewServer \<notin> set (new_events w (snd (main e w))) \<and>
   ServerStart \<notin> set (new_events w (snd (main e w))) \<and>
   cfg (snd (main e w)) = cfg w \<and> store (snd (main e w)) = store w \<and>
   db_open (snd (main e w)) = db_open w \<and> server (snd (main e w)) = server w"
  by (simp add: main_def foo_eq new_events_def)

theorem main_exits_with_status_1_witness:
  "exit_status (fst (main (env_with ''linux'' (cfg_with False False) (Some 2)) w_init)) = Some 1 \<and>
   trace (snd (main (env_with ''linux'' (cfg_with False False) (Some 2)) w_init)) =
     [Println [118, 169, 20, 218, 144, 198, 113, 235, 3, 191, 221, 241, 214, 45, 209,
        189, 245, 32, 240, 96, 207, 65, 192, 136, 172] None, OsExit 1]"
  using main_exits_with_status_1 [of "env_with ''linux'' (cfg_with False False) (Some 2)" w_init]
  by (simp add: new_events_def w_init_def)

subsection \<open>Dropping the indexes\<close>




text \<open>
  C3 as it is stated does not hold. With both requests configured and every call
  succeeding, the run drops the address index and returns: \<open>indexers.DropTxIndex\<close> is
  not called and the transaction index is still there at the end.
\<close>

theorem both_drops_configured_counterexample:
  "DropAddrIndex (cfg_with True True) \<and> DropTxIndex (cfg_with True True) \<and>
   loadConfig (env_with ''linux'' (cfg_with True True) None) = Inr (cfg_with True True) \<and>
   fst (btcdMain (env_with ''linux'' (cfg_with True True) None) None w_init) = Returned None \<and>
   new_events w_init (snd (btcdMain (env_with ''linux'' (cfg_with True True) None) None w_init)) =
     [LoadConfig, InterruptListener, LogInfo ''Version %s'', LoadBlockDB, IndexersDropAddrIndex,
      LogInfo ''Gracefully shutting down the database...'', DbClose,
      LogInfo ''Shutdown complete'', BackendLogFlush] \<and>
   IndexersDropTxIndex \<notin>
     set (new_events w_init
            (snd (btcdMain (env_with ''linux'' (cfg_with True True) None) None w_init))) \<and>
   store (snd (btcdMain (env_with ''linux'' (cfg_with True True) None) None w_init)) =
     \<lparr>tx_index = Some [(1, 2, 3)], addr_index = None\<rparr>"
  by (simp add: eval_defs)

text \<open>
  C3, amended. In a run of \<open>btcdMain\<close> where both requests are configured and that gets
  as far as the requests (configuration and database loaded, no shutdown requested at the
  two checks), only the address index drop is performed: \<open>btcdMain\<close> logs a failure of
  that drop, if any, cleans up and returns the result of that drop. The transaction index
  drop is not called in that run, and the indexes are left as the address index drop
  leaves them.
\<close>

theorem both_drops_configured_only_addr_dropped:
  assumes "loadConfig e = Inr c" and "DropAddrIndex c" and "DropTxIndex c"
    and "\<not> interruptRequested e 1" and "loadBlockDB e = None"
  shows "fst (btcdMain e serverChan w) = Returned (fst (dropAddrIndex e (store w))) \<and>
         store (snd (btcdMain e serverChan w)) = snd (dropAddrIndex e (store w)) \<and>
         new_events w (snd (btcdMain e serverChan w)) =
           [LoadConfig, InterruptListener, LogInfo ''Version %s'', LoadBlockDB,
            IndexersDropAddrIndex] @
           (case fst (dropAddrIndex e (store w)) of None \<Rightarrow> [] | Some err \<Rightarrow> [LogError err]) @
           [LogInfo ''Gracefully shutting down the database...'', DbClose,
            LogInfo ''Shutdown complete'', BackendLogFlush] \<and>
         IndexersDropAddrIndex \<in> set (new_events w (snd (btcdMain e serverChan w))) \<and>
         IndexersDropTxIndex \<notin> set (new_events w (snd (btcdMain e serverChan w)))"
  using path_drop_addr [OF assms(1) assms(4) assms(5) assms(2), of serverChan w]
  by (simp add: new_events_def split: option.splits)

theorem both_drops_configured_only_addr_dropped_witness:
  "fst (btcdMain (env_with ''linux'' (cfg_with True True) (Some 2)) None w_init) = Returned None \<and>
   store (snd (btcdMain (env_with ''linux'' (cfg_with True True) (Some 2)) None w_init)) =
     \<lparr>tx_index = Some [(1, 2, 3)], addr_index = None\<rparr> \<and>
   IndexersDropTxIndex \<notin>
     set (new_events w_init
            (snd (btcdMain (env_with ''linux'' (cfg_with True True) (Some 2)) None w_init)))"
proof -
  let ?e = "env_with ''linux'' (cfg_with True True) (Some 2)"
  have h: "loadConfig ?e = Inr (cfg_with True True)" "DropAddrIndex (cfg_with True True)"
    "DropTxIndex (cfg_with True True)" "\<not> interruptRequested ?e 1" "loadBlockDB ?e = None"
    by (simp_all add: example_defs interruptRequested_def)
  show ?thesis
    using both_drops_configured_only_addr_dropped [OF h, of None w_init]
    by (simp add: example_defs indexers_DropAddrIndex_def)
qed

text \<open>
  C4 as it is stated does not hold. With the address index drop configured and the
  shutdown signal already there at the first check, \<open>btcdMain\<close> returns nil without
  opening the database: the drop is not performed and the address index is still there.
\<close>

theorem drop_request_interrupted_counterexample:
  "loadConfig (env_with ''linux'' (cfg_with True False) (Some 0)) = Inr (cfg_with True False) \<and>
   DropAddrIndex (cfg_with True False) \<and>
   fst (btcdMain (env_with ''linux'' (cfg_with True False) (Some 0)) None w_init) = Returned None \<and>
   new_events w_init (snd (btcdMain (env_with ''linux'' (cfg_with True False) (Some 0)) None w_init)) =
     [LoadConfig, InterruptListener, LogInfo ''Version %s'', LogInfo ''Shutdown complete'',
      BackendLogFlush] \<and>
   IndexersDropAddrIndex \<notin>
     set (new_events w_init
            (snd (btcdMain (env_with ''linux'' (cfg_with True False) (Some 0)) None w_init))) \<and>
   store (snd (btcdMain (env_with ''linux'' (cfg_with True False) (Some 0)) None w_init)) =
     \<lparr>tx_index = Some [(1, 2, 3)], addr_index = Some [(7, [1])]\<rparr>"
  by (simp add: eval_defs)

text \<open>
  C4, amended. When a request to drop the address index or a request to drop the
  transaction index is configured, \<open>btcdMain\<close> always returns, \<open>newServer\<close> is never
  called and no server is started in that run. When moreover the run gets as far as the
  requests (database loaded, no shutdown requested at the two checks), it performs one
  drop, the address index drop if that is configured and the transaction index drop
  otherwise, and returns the result of that drop right afterwards: what follows the drop
  is the log of its failure, if any, and the deferred clean-up.
\<close>

theorem drop_request_never_starts_server:
  assumes "loadConfig e = Inr c" and "DropAddrIndex c \<or> DropTxIndex c"
  shows "returned (fst (btcdMain e serverChan w)) \<and>
         NewServer \<notin> set (new_events w (snd (btcdMain e serverChan w))) \<and>
         ServerStart \<notin> set (new_events w (snd (btcdMain e serverChan w))) \<and>
         server (snd (btcdMain e serverChan w)) = server w \<and>
         (\<not> interruptRequested e 1 \<and> loadBlockDB e = None \<longrightarrow>
            (if DropAddrIndex c
             then fst (btcdMain e serverChan w) = Returned (fst (dropAddrIndex e (store w))) \<and>
                  store (snd (btcdMain e serverChan w)) = snd (dropAddrIndex e (store w)) \<and>
                  new_events w (snd (btcdMain e serverChan w)) =
                    [LoadConfig, InterruptListener, LogInfo ''Version %s'', LoadBlockDB,
                     IndexersDropAddrIndex] @
                    (case fst (dropAddrIndex e (store w)) of
                       None \<Rightarrow> [] | Some err \<Rightarrow> [LogError err]) @
                    [LogInfo ''Gracefully shutting down the database...'', DbClose,
                     LogInfo ''Shutdown complete'', BackendLogFlush]
             else fst (btcdMain e serverChan w) = Returned (fst (dropTxIndex e (store w))) \<and>
                  store (snd (btcdMain e serverChan w)) = snd (dropTxIndex e (store w)) \<and>
                  new_events w (snd (btcdMain e serverChan w)) =
                    [LoadConfig, InterruptListener, LogInfo ''Version %s'', LoadBlockDB,
                     IndexersDropTxIndex] @
                    (case fst (dropTxIndex e (store w)) of
                       None \<Rightarrow> [] | Some err \<Rightarrow> [LogError err]) @
                    [LogInfo ''Gracefully shutting down the database...'', DbClose,
                     LogInfo ''Shutdown complete'', BackendLogFlush]))"
proof (cases rule: btcdMain_paths [where e = e and serverChan = serverChan])
  case config_error
  with assms(1) show ?thesis by simp
next
  case interrupted_first
  then show ?thesis
    using interruptRequested_mono [of e] by (simp add: new_events_def path_interrupted_first)
next
  case db_error
  then show ?thesis by (simp add: new_events_def path_db_error)
next
  case interrupted_second
  then show ?thesis by (simp add: new_events_def path_interrupted_second)
next
  case drop_addr
  with assms(1) show ?thesis
    by (simp add: new_events_def path_drop_addr split: option.splits)
next
  case drop_tx
  with assms(1) show ?thesis
    by (simp add: new_events_def path_drop_tx split: option.splits)
next
  case server_error
  with assms show ?thesis by auto
next
  case send_blocks
  with assms show ?thesis by auto
next
  case never_interrupted
  with assms show ?thesis by auto
next
  case served
  with assms show ?thesis by auto
qed

theorem drop_request_never_starts_server_witness:
  "fst (btcdMain (env_with ''linux'' (cfg_with False True) (Some 2)) None
          (w_init\<lparr>store := \<lparr>tx_index = Some [(1, 2, 3)], addr_index = None\<rparr>\<rparr>)) = Returned None \<and>
   store (snd (btcdMain (env_with ''linux'' (cfg_with False True) (Some 2)) None
          (w_init\<lparr>store := \<lparr>tx_index = Some [(1, 2, 3)], addr_index = None\<rparr>\<rparr>))) =
     \<lparr>tx_index = None, addr_index = None\<rparr> \<and>
   NewServer \<notin> set (new_events (w_init\<lparr>store := \<lparr>tx_index = Some [(1, 2, 3)], addr_index = None\<rparr>\<rparr>)
     (snd (btcdMain (env_with ''linux'' (cfg_with False True) (Some 2)) None
          (w_init\<lparr>store := \<lparr>tx_index = Some [(1, 2, 3)], addr_index = None\<rparr>\<rparr>))))"
proof -
  let ?e = "env_with ''linux'' (cfg_with False True) (Some 2)"
  let ?w = "w_init\<lparr>store := \<lparr>tx_index = Some [(1, 2, 3)], addr_index = None\<rparr>\<rparr>"
  have h: "loadConfig ?e = Inr (cfg_with False True)"
    "DropAddrIndex (cfg_with False True) \<or> DropTxIndex (cfg_with False True)"
    by (simp_all add: example_defs)
  have r: "\<not> interruptRequested ?e 1 \<and> loadBlockDB ?e = None" "\<not> DropAddrIndex (cfg_with False True)"
    by (simp_all add: example_defs interruptRequested_def)
  show ?thesis
    using drop_request_never_starts_server [OF h, of None ?w] r
    by (simp add: example_defs indexers_DropTxIndex_def indexers_DropAddrIndex_def)
qed

subsection \<open>Failure to load the block database\<close>

text \<open>
  C5. When a run of \<open>btcdMain\<close> asks for the block database and loading it fails,
  \<open>btcdMain\<close> does not try again (\<open>loadBlockDB\<close> is called once): it returns the
  error to its caller, and no server is created or started. The caller in \<open>main\<close>
  then exits with status 1; and \<open>main\<close> as a whole exits with status 1 in any case.
\<close>

theorem loadBlockDB_failure_is_returned:
  assumes "LoadBlockDB \<in> set (new_events w (snd (btcdMain e serverChan w)))"
    and "loadBlockDB e = Some err"
  shows "fst (btcdMain e serverChan w) = Returned (Some err) \<and>
         count_list (new_events w (snd (btcdMain e serverChan w))) LoadBlockDB = 1 \<and>
         NewServer \<notin> set (new_events w (snd (btcdMain e serverChan w))) \<and>
         ServerStart \<notin> set (new_events w (snd (btcdMain e serverChan w))) \<and>
         server (snd (btcdMain e serverChan w)) = server w \<and>
         (LoadBlockDB \<in> set (new_events w (snd (main_after_foo e w))) \<longrightarrow>
            fst (main_after_foo e w) = Exited 1) \<and>
         exit_status (fst (main e w)) = Some 1"
proof -
  have after_foo: "fst (main_after_foo e w) = Exited 1"
    if run: "LoadBlockDB \<in> set (new_events w (snd (main_after_foo e w)))"
  proof (cases rule: main_after_foo_paths [where e = e])
    case limits_error
    then show ?thesis by (simp add: main_after_foo_limits_error)
  next
    case service_error
    then show ?thesis by (simp add: main_after_foo_service_error)
  next
    case service
    with run show ?thesis by (simp add: new_events_def main_after_foo_service)
  next
    case standalone
    define w4 where "w4 = (if goos e = ''windows'' then emit WinServiceMain else id)
                (emit SetLimits (emit (SetGCPercent 10) (emit GOMAXPROCS w)))"
    note m = main_after_foo_btcdMain [OF standalone w4_def]
    from run m(2) have "LoadBlockDB \<in> set (new_events w4 (snd (btcdMain e None w4)))"
      by (auto simp: new_events_def w4_def split: outcome.splits option.splits if_splits)
    from db_failure_returned(1) [OF this assms(2)] m(1) show ?thesis by simp
  qed
  from db_failure_returned [OF assms] after_foo show ?thesis
    by (simp add: main_def foo_eq)
qed

theorem loadBlockDB_failure_is_returned_witness:
  "fst (btcdMain ((env_with ''linux'' (cfg_with False False) (Some 2))
                    \<lparr>loadBlockDB := Some (Failure ''disk'')\<rparr>) None w_init) =
     Returned (Some (Failure ''disk'')) \<and>
   LoadBlockDB \<in> set (new_events w_init (snd (main_after_foo
       ((env_with ''linux'' (cfg_with False False) (Some 2))
          \<lparr>loadBlockDB := Some (Failure ''disk'')\<rparr>) w_init))) \<and>
   fst (main_after_foo ((env_with ''linux'' (cfg_with False False) (Some 2))
                          \<lparr>loadBlockDB := Some (Failure ''disk'')\<rparr>) w_init) = Exited 1"
proof -
  let ?e = "(env_with ''linux'' (cfg_with False False) (Some 2))
              \<lparr>loadBlockDB := Some (Failure ''disk'')\<rparr>"
  have h: "LoadBlockDB \<in> set (new_events w_init (snd (btcdMain ?e None w_init)))"
    "loadBlockDB ?e = Some (Failure ''disk'')"
    by (simp_all add: eval_defs)
  have m: "LoadBlockDB \<in> set (new_events w_init (snd (main_after_foo ?e w_init)))"
    by (simp add: eval_defs main_after_foo_def serviceDispatch_def emit_def)
  show ?thesis
    using loadBlockDB_failure_is_returned [OF h] m by simp
qed

subsection \<open>Clean-up on return\<close>

text \<open>
  C6. On every path on which \<open>btcdMain\<close> returns after the block database was loaded
  (a nil return, an error return, or the return after the shutdown signal), the database
  has been closed before the return: \<open>db.Close\<close> is called once, after the load, the
  database is not opened again afterwards, and the handle is closed at the end.
\<close>

theorem database_closed_before_return:
  assumes "returned (fst (btcdMain e serverChan w))"
    and "LoadBlockDB \<in> set (new_events w (snd (btcdMain e serverChan w)))"
    and "loadBlockDB e = None"
  shows "\<not> db_open (snd (btcdMain e serverChan w)) \<and>
         occurs_before LoadBlockDB DbClose (new_events w (snd (btcdMain e serverChan w))) \<and>
         count_list (new_events w (snd (btcdMain e serverChan w))) DbClose = 1 \<and>
         LoadBlockDB \<notin> set (after_first DbClose (new_events w (snd (btcdMain e serverChan w))))"
proof (cases rule: btcdMain_paths [where e = e and serverChan = serverChan])
  case config_error
  with assms(2) show ?thesis by (simp add: new_events_def path_config_error)
next
  case interrupted_first
  with assms(2) show ?thesis by (simp add: new_events_def path_interrupted_first)
next
  case db_error
  with assms(3) show ?thesis by simp
next
  case interrupted_second
  then show ?thesis by (simp add: new_events_def path_interrupted_second order_defs)
next
  case drop_addr
  then show ?thesis by (simp add: new_events_def path_drop_addr order_defs split: option.splits)
next
  case drop_tx
  then show ?thesis by (simp add: new_events_def path_drop_tx order_defs split: option.splits)
next
  case server_error
  then show ?thesis by (simp add: new_events_def path_server_error order_defs)
next
  case send_blocks
  with assms(1) show ?thesis by (simp add: path_send_blocks)
next
  case never_interrupted
  with assms(1) show ?thesis by (simp add: path_never_interrupted)
next
  case served
  then show ?thesis by (simp add: new_events_def path_served order_defs)
qed

theorem database_closed_before_return_witness:
  "returned (fst (btcdMain ((env_with ''linux'' (cfg_with False False) (Some 2))
                              \<lparr>newServer := Some (Failure ''listen'')\<rparr>) None w_init)) \<and>
   \<not> db_open (snd (btcdMain ((env_with ''linux'' (cfg_with False False) (Some 2))
                                \<lparr>newServer := Some (Failure ''listen'')\<rparr>) None w_init)) \<and>
   occurs_before LoadBlockDB DbClose
     (new_events w_init (snd (btcdMain ((env_with ''linux'' (cfg_with False False) (Some 2))
                                          \<lparr>newServer := Some (Failure ''listen'')\<rparr>) None w_init)))"
proof -
  let ?e = "(env_with ''linux'' (cfg_with False False) (Some 2))
              \<lparr>newServer := Some (Failure ''listen'')\<rparr>"
  have h: "returned (fst (btcdMain ?e None w_init))"
    "LoadBlockDB \<in> set (new_events w_init (snd (btcdMain ?e None w_init)))"
    "loadBlockDB ?e = None"
    by (simp_all add: eval_defs)
  show ?thesis
    using database_closed_before_return [OF h] h(1) by simp
qed

text \<open>
  C7. On every path on which \<open>btcdMain\<close> returns, the deferred clean-up runs in the
  reverse of the order in which the resources were acquired, each part at most once: when
  the server has been created, it is stopped and its shutdown is awaited before the
  database is closed, and the log is flushed after both; when only the database has been
  loaded, it is closed before the log is flushed; and once the interrupt listener is set
  up, flushing the log is the last thing that happens.
\<close>

theorem cleanup_innermost_first:
  assumes "returned (fst (btcdMain e serverChan w))"
  shows "(NewServer \<in> set (new_events w (snd (btcdMain e serverChan w))) \<and> newServer e = None \<longrightarrow>
            occurs_before ServerStop ServerWaitForShutdown
              (new_events w (snd (btcdMain e serverChan w))) \<and>
            occurs_before ServerWaitForShutdown DbClose
              (new_events w (snd (btcdMain e serverChan w))) \<and>
            occurs_before DbClose BackendLogFlush
              (new_events w (snd (btcdMain e serverChan w))) \<and>
            server (snd (btcdMain e serverChan w)) = Stopped \<and>
            \<not> db_open (snd (btcdMain e serverChan w))) \<and>
         (LoadBlockDB \<in> set (new_events w (snd (btcdMain e serverChan w))) \<and>
          loadBlockDB e = None \<longrightarrow>
            occurs_before DbClose BackendLogFlush
              (new_events w (snd (btcdMain e serverChan w)))) \<and>
         (InterruptListener \<in> set (new_events w (snd (btcdMain e serverChan w))) \<longrightarrow>
            last (new_events w (snd (btcdMain e serverChan w))) = BackendLogFlush) \<and>
         count_list (new_events w (snd (btcdMain e serverChan w))) ServerStop \<le> 1 \<and>
         count_list (new_events w (snd (btcdMain e serverChan w))) DbClose \<le> 1 \<and>
         count_list (new_events w (snd (btcdMain e serverChan w))) BackendLogFlush \<le> 1"
proof (cases rule: btcdMain_paths [where e = e and serverChan = serverChan])
  case config_error
  then show ?thesis by (simp add: new_events_def path_config_error)
next
  case interrupted_first
  then show ?thesis by (simp add: new_events_def path_interrupted_first)
next
  case db_error
  then show ?thesis by (simp add: new_events_def path_db_error)
next
  case interrupted_second
  then show ?thesis by (simp add: new_events_def path_interrupted_second order_defs)
next
  case drop_addr
  then show ?thesis by (simp add: new_events_def path_drop_addr order_defs split: option.splits)
next
  case drop_tx
  then show ?thesis by (simp add: new_events_def path_drop_tx order_defs split: option.splits)
next
  case server_error
  then show ?thesis by (simp add: new_events_def path_server_error order_defs)
next
  case send_blocks
  with assms show ?thesis by (simp add: path_send_blocks)
next
  case never_interrupted
  with assms show ?thesis by (simp add: path_never_interrupted)
next
  case served
  then show ?thesis by (simp add: new_events_def path_served order_defs)
qed

theorem cleanup_innermost_first_witness:
  "returned (fst (btcdMain (env_with ''linux'' (cfg_with False False) (Some 2)) (Some True) w_init)) \<and>
   NewServer \<in> set (new_events w_init
     (snd (btcdMain (env_with ''linux'' (cfg_with False False) (Some 2)) (Some True) w_init))) \<and>
   occurs_before ServerStop ServerWaitForShutdown (new_events w_init
     (snd (btcdMain (env_with ''linux'' (cfg_with False False) (Some 2)) (Some True) w_init))) \<and>
   occurs_before ServerWaitForShutdown DbClose (new_events w_init
     (snd (btcdMain (env_with ''linux'' (cfg_with False False) (Some 2)) (Some True) w_init))) \<and>
   occurs_before DbClose BackendLogFlush (new_events w_init
     (snd (btcdMain (env_with ''linux'' (cfg_with False False) (Some 2)) (Some True) w_init)))"
proof -
  let ?e = "env_with ''linux'' (cfg_with False False) (Some 2)"
  have h: "returned (fst (btcdMain ?e (Some True) w_init))"
    by (simp add: eval_defs)
  have s: "NewServer \<in> set (new_events w_init (snd (btcdMain ?e (Some True) w_init)))"
    "newServer ?e = None"
    by (simp_all add: eval_defs)
  show ?thesis
    using cleanup_innermost_first [OF h] h s by simp
qed

subsection \<open>The service entry point\<close>

text \<open>
  The statements of \<open>main\<close> that follow \<open>foo\<close> do what their comments say:
  \<open>winServiceMain\<close> is called only when the operating system is Windows, and at most
  once; when it was called and reports that the process ran as a service, the process
  exits with status 0 and nothing of \<open>btcdMain\<close> has run. But \<open>foo\<close> exits first, so
  \<open>main\<close> as a whole never calls it.
\<close>

lemma service_dispatch_after_foo:
  "(WinServiceMain \<in> set (new_events w (snd (main_after_foo e w))) \<longrightarrow> goos e = ''windows'') \<and>
   (WinServiceMain \<in> set (new_events w (snd (main_after_foo e w))) \<and>
    winServiceMain e = (True, None) \<longrightarrow>
      fst (main_after_foo e w) = Exited 0 \<and>
      new_events w (snd (main_after_foo e w)) =
        [GOMAXPROCS, SetGCPercent 10, SetLimits, WinServiceMain, OsExit 0]) \<and>
   count_list (new_events w (snd (main_after_foo e w))) WinServiceMain \<le> 1 \<and>
   WinServiceMain \<notin> set (new_events w (snd (main e w)))"
proof -
  have after_foo:
    "(WinServiceMain \<in> set (new_events w (snd (main_after_foo e w))) \<longrightarrow> goos e = ''windows'') \<and>
     (WinServiceMain \<in> set (new_events w (snd (main_after_foo e w))) \<and>
      winServiceMain e = (True, None) \<longrightarrow>
        fst (main_after_foo e w) = Exited 0 \<and>
        new_events w (snd (main_after_foo e w)) =
          [GOMAXPROCS, SetGCPercent 10, SetLimits, WinServiceMain, OsExit 0]) \<and>
     count_list (new_events w (snd (main_after_foo e w))) WinServiceMain \<le> 1"
  proof (cases rule: main_after_foo_paths [where e = e])
    case limits_error
    then show ?thesis by (simp add: new_events_def main_after_foo_limits_error)
  next
    case service_error
    then show ?thesis by (auto simp: new_events_def main_after_foo_service_error)
  next
    case service
    then show ?thesis by (simp add: new_events_def main_after_foo_service)
  next
    case standalone
    define w4 where "w4 = (if goos e = ''windows'' then emit WinServiceMain else id)
                (emit SetLimits (emit (SetGCPercent 10) (emit GOMAXPROCS w)))"
    note m = main_after_foo_btcdMain [OF standalone w4_def]
    note inner = btcdMain_no_service_call [of w4 e None]
    then have "count_list (new_events w4 (snd (btcdMain e None w4))) WinServiceMain = 0"
      by (simp add: count_list_0_iff)
    with standalone m(2) inner show ?thesis
      by (auto simp: new_events_def w4_def split: outcome.splits option.splits)
  qed
  then show ?thesis
    by (simp add: main_def foo_eq new_events_def)
qed

text \<open>
  C8. On Windows, started as a service (\<open>winServiceMain\<close> would report a service and no
  error), \<open>main\<close> does not call \<open>winServiceMain\<close> and exits with status 1, after the
  two events of \<open>foo\<close>; the statements that follow \<open>foo\<close> in \<open>main\<close>, had they been
  reached, would have called it and exited with status 0. The program thus does not do
  what the comments on \<open>winServiceMain\<close> and in \<open>main\<close> say it does.
\<close>

theorem main_windows_service_exits_1:
  "goos (env_with ''windows'' (cfg_with False False) (Some 2)) = ''windows'' \<and>
   setLimits (env_with ''windows'' (cfg_with False False) (Some 2)) = None \<and>
   winServiceMain (env_with ''windows'' (cfg_with False False) (Some 2)) = (True, None) \<and>
   fst (main (env_with ''windows'' (cfg_with False False) (Some 2)) w_init) = Exited 1 \<and>
   exit_status (fst (main (env_with ''windows'' (cfg_with False False) (Some 2)) w_init)) \<noteq> Some 0 \<and>
   new_events w_init (snd (main (env_with ''windows'' (cfg_with False False) (Some 2)) w_init)) =
     [Println [118, 169, 20, 218, 144, 198, 113, 235, 3, 191, 221, 241, 214, 45, 209,
        189, 245, 32, 240, 96, 207, 65, 192, 136, 172] None, OsExit 1] \<and>
   WinServiceMain \<notin>
     set (new_events w_init
            (snd (main (env_with ''windows'' (cfg_with False False) (Some 2)) w_init))) \<and>
   fst (main_after_foo (env_with ''windows'' (cfg_with False False) (Some 2)) w_init) = Exited 0 \<and>
   new_events w_init
     (snd (main_after_foo (env_with ''windows'' (cfg_with False False) (Some 2)) w_init)) =
     [GOMAXPROCS, SetGCPercent 10, SetLimits, WinServiceMain, OsExit 0]"
  by (simp add: main_def foo_eq example_defs new_events_def main_after_foo_def
      serviceDispatch_def)

subsection \<open>Interrupts during start-up\<close>

text \<open>
  C9. If the shutdown signal has been raised when \<open>btcdMain\<close> makes its first check,
  before the block database is loaded, \<open>btcdMain\<close> returns nil, the database is not
  loaded and no server is created or started. If it has been raised when \<open>btcdMain\<close>
  makes its second check, after the database is loaded, \<open>btcdMain\<close> returns nil, no
  index is dropped, no server is created or started, and the database is closed before
  the return.
\<close>

theorem interrupt_at_startup_returns_nil:
  assumes "loadConfig e = Inr c"
  shows "(interruptRequested e 0 \<longrightarrow>
            fst (btcdMain e serverChan w) = Returned None \<and>
            LoadBlockDB \<notin> set (new_events w (snd (btcdMain e serverChan w))) \<and>
            NewServer \<notin> set (new_events w (snd (btcdMain e serverChan w))) \<and>
            ServerStart \<notin> set (new_events w (snd (btcdMain e serverChan w))) \<and>
            server (snd (btcdMain e serverChan w)) = server w \<and>
            db_open (snd (btcdMain e serverChan w)) = db_open w) \<and>
         (\<not> interruptRequested e 0 \<and> loadBlockDB e = None \<and> interruptRequested e 1 \<longrightarrow>
            fst (btcdMain e serverChan w) = Returned None \<and>
            IndexersDropAddrIndex \<notin> set (new_events w (snd (btcdMain e serverChan w))) \<and>
            IndexersDropTxIndex \<notin> set (new_events w (snd (btcdMain e serverChan w))) \<and>
            NewServer \<notin> set (new_events w (snd (btcdMain e serverChan w))) \<and>
            ServerStart \<notin> set (new_events w (snd (btcdMain e serverChan w))) \<and>
            server (snd (btcdMain e serverChan w)) = server w \<and>
            occurs_before LoadBlockDB DbClose (new_events w (snd (btcdMain e serverChan w))) \<and>
            \<not> db_open (snd (btcdMain e serverChan w)))"
  using assms path_interrupted_first [of e c serverChan w]
    path_interrupted_second [of e c serverChan w]
  by (simp add: new_events_def order_defs)

theorem interrupt_at_startup_returns_nil_witness:
  "interruptRequested (env_with ''linux'' (cfg_with False False) (Some 0)) 0 \<and>
   fst (btcdMain (env_with ''linux'' (cfg_with False False) (Some 0)) None w_init) = Returned None \<and>
   \<not> interruptRequested (env_with ''linux'' (cfg_with True False) (Some 1)) 0 \<and>
   interruptRequested (env_with ''linux'' (cfg_with True False) (Some 1)) 1 \<and>
   fst (btcdMain (env_with ''linux'' (cfg_with True False) (Some 1)) None w_init) = Returned None \<and>
   occurs_before LoadBlockDB DbClose (new_events w_init
     (snd (btcdMain (env_with ''linux'' (cfg_with True False) (Some 1)) None w_init)))"
proof -
  let ?a = "env_with ''linux'' (cfg_with False False) (Some 0)"
  let ?b = "env_with ''linux'' (cfg_with True False) (Some 1)"
  have a: "loadConfig ?a = Inr (cfg_with False False)" "interruptRequested ?a 0"
    by (simp_all add: example_defs interruptRequested_def)
  have b: "loadConfig ?b = Inr (cfg_with True False)" "\<not> interruptRequested ?b 0"
    "loadBlockDB ?b = None" "interruptRequested ?b 1"
    by (simp_all add: example_defs interruptRequested_def)
  show ?thesis
    using interrupt_at_startup_returns_nil [OF a(1), of None w_init]
      interrupt_at_startup_returns_nil [OF b(1), of None w_init] a b
    by simp
qed

subsection \<open>The server channel\<close>

text \<open>
  C10. Whenever a run of \<open>btcdMain\<close> sends the server on \<open>serverChan\<close>, the channel
  is not nil, \<open>server.Start\<close> has been called before the send, the server that is sent
  is in the started state, and it is sent once. With a channel that takes the value,
  every run that starts the server also sends it.
\<close>

theorem server_sent_after_start:
  "(ServerChanSend s \<in> set (new_events w (snd (btcdMain e serverChan w))) \<longrightarrow>
      serverChan = Some True \<and> s = Started \<and>
      occurs_before ServerStart (ServerChanSend s) (new_events w (snd (btcdMain e serverChan w))) \<and>
      ServerChanSend s \<notin>
        set (takeWhile (\<lambda>x. x \<noteq> ServerStart) (new_events w (snd (btcdMain e serverChan w)))) \<and>
      count_list (new_events w (snd (btcdMain e serverChan w))) (ServerChanSend s) = 1) \<and>
   (serverChan = Some True \<and> ServerStart \<in> set (new_events w (snd (btcdMain e serverChan w))) \<longrightarrow>
      ServerChanSend Started \<in> set (new_events w (snd (btcdMain e serverChan w))))"
proof (cases rule: btcdMain_paths [where e = e and serverChan = serverChan])
  case config_error
  then show ?thesis by (simp add: new_events_def path_config_error)
next
  case interrupted_first
  then show ?thesis by (simp add: new_events_def path_interrupted_first)
next
  case db_error
  then show ?thesis by (simp add: new_events_def path_db_error)
next
  case interrupted_second
  then show ?thesis by (simp add: new_events_def path_interrupted_second)
next
  case drop_addr
  then show ?thesis by (simp add: new_events_def path_drop_addr split: option.splits)
next
  case drop_tx
  then show ?thesis by (simp add: new_events_def path_drop_tx split: option.splits)
next
  case server_error
  then show ?thesis by (simp add: new_events_def path_server_error)
next
  case send_blocks
  then show ?thesis by (simp add: new_events_def path_send_blocks)
next
  case never_interrupted
  then show ?thesis
    by (cases serverChan) (auto simp: new_events_def path_never_interrupted order_defs)
next
  case served
  then show ?thesis
    by (cases serverChan) (auto simp: new_events_def path_served order_defs)
qed

theorem server_sent_after_start_witness:
  "ServerChanSend Started \<in> set (new_events w_init
     (snd (btcdMain (env_with ''linux'' (cfg_with False False) (Some 2)) (Some True) w_init))) \<and>
   occurs_before ServerStart (ServerChanSend Started) (new_events w_init
     (snd (btcdMain (env_with ''linux'' (cfg_with False False) (Some 2)) (Some True) w_init)))"
proof -
  let ?e = "env_with ''linux'' (cfg_with False False) (Some 2)"
  have h: "ServerChanSend Started \<in>
             set (new_events w_init (snd (btcdMain ?e (Some True) w_init)))"
    by (simp add: eval_defs)
  show ?thesis
    using server_sent_after_start [of Started w_init ?e "Some True"] h by simp
qed

end
